theory Spec2Isabelle
  imports Complex_Main "HOL-Library.Sublist"
begin

section \<open>Python values\<close>

text \<open>
  The four commands receive \<^verbatim>\<open>args\<close>, a list, and \<^verbatim>\<open>context\<close>, a dictionary, whose
  items are what \<^verbatim>\<open>json.load\<close> builds: \<^verbatim>\<open>None\<close>, booleans, integers, floats,
  strings, lists and dictionaries with string keys. A string is its list of characters, a character outside ASCII being written as
  its UTF-8 bytes. A dictionary literal is the association list of its items in insertion
  order, with distinct keys. Floats are only stored, passed on and tested for truth, never
  computed with; a float is carried as the real number it denotes.
\<close>

datatype json =
    JNull
  | JBool bool
  | JInt int
  | JFloat real
  | JStr string
  | JList "json list"
  | JObj "(string \<times> json) list"

text \<open>Python's truth value of an object, as \<^verbatim>\<open>not x\<close> and \<^verbatim>\<open>if x:\<close> test it.\<close>

fun truthy :: "json \<Rightarrow> bool" where
  "truthy JNull = False"
| "truthy (JBool b) = b"
| "truthy (JInt i) = (i \<noteq> 0)"
| "truthy (JFloat r) = (r \<noteq> 0)"
| "truthy (JStr s) = (s \<noteq> [])"
| "truthy (JList xs) = (xs \<noteq> [])"
| "truthy (JObj kvs) = (kvs \<noteq> [])"

datatype py_type = T_NoneType | T_bool | T_int | T_float | T_str | T_list | T_dict

fun type_of :: "json \<Rightarrow> py_type" where
  "type_of JNull = T_NoneType"
| "type_of (JBool _) = T_bool"
| "type_of (JInt _) = T_int"
| "type_of (JFloat _) = T_float"
| "type_of (JStr _) = T_str"
| "type_of (JList _) = T_list"
| "type_of (JObj _) = T_dict"

section \<open>Exceptions\<close>

text \<open>
  The exceptions that can arise while a command runs. Those raised by a library call
  (\<^verbatim>\<open>requests.post\<close>, \<^verbatim>\<open>response.json()\<close>, the Mistral client, the file system)
  carry the text \<^verbatim>\<open>str(e)\<close> that the library gave them; those raised by the interpreter
  carry what they are about.
\<close>

datatype type_error = NotIterable | NotSubscriptable | Unhashable | NotPathLike

datatype py_exc =
    RequestException string
  | JSONDecodeError string
  | LibraryError string
  | AttributeError py_type string
  | TypeError type_error py_type
  | IndexError
  | KeyError json

text \<open>
  What the interpreter prints for a value or an exception is not computed here: the
  commands only splice \<^verbatim>\<open>str(v)\<close> and \<^verbatim>\<open>str(e)\<close> into longer strings. Both
  are parameters of the model.
\<close>

record py_runtime =
  str_of :: "json \<Rightarrow> string"
  exc_str :: "py_exc \<Rightarrow> string"

text \<open>\<^verbatim>\<open>f"{v}"\<close>: a string formats as itself, any other value through \<^verbatim>\<open>str\<close>.\<close>

definition fstr :: "py_runtime \<Rightarrow> json \<Rightarrow> string" where
  "fstr py v = (case v of JStr s \<Rightarrow> s | _ \<Rightarrow> str_of py v)"

text \<open>\<^verbatim>\<open>f"{e}"\<close> for a caught exception \<^verbatim>\<open>e\<close>.\<close>

definition exc_text :: "py_runtime \<Rightarrow> py_exc \<Rightarrow> string" where
  "exc_text py e =
     (case e of
        RequestException m \<Rightarrow> m
      | JSONDecodeError m \<Rightarrow> m
      | LibraryError m \<Rightarrow> m
      | _ \<Rightarrow> exc_str py e)"

section \<open>Operations on Python objects\<close>

text \<open>\<^verbatim>\<open>obj.get(key, default)\<close>: only a dictionary has the method.\<close>

definition py_get :: "json \<Rightarrow> string \<Rightarrow> json \<Rightarrow> py_exc + json" where
  "py_get obj k dflt =
     (case obj of
        JObj kvs \<Rightarrow> Inr (case map_of kvs k of Some v \<Rightarrow> v | None \<Rightarrow> dflt)
      | _ \<Rightarrow> Inl (AttributeError (type_of obj) ''get''))"

text \<open>\<^verbatim>\<open>obj[0]\<close>. A dictionary loaded from JSON has no key \<^verbatim>\<open>0\<close>.\<close>

definition py_index0 :: "json \<Rightarrow> py_exc + json" where
  "py_index0 obj =
     (case obj of
        JList xs \<Rightarrow> (case xs of [] \<Rightarrow> Inl IndexError | x # _ \<Rightarrow> Inr x)
      | JStr s \<Rightarrow> (case s of [] \<Rightarrow> Inl IndexError | c # _ \<Rightarrow> Inr (JStr [c]))
      | JObj _ \<Rightarrow> Inl (KeyError (JInt 0))
      | _ \<Rightarrow> Inl (TypeError NotSubscriptable (type_of obj)))"

text \<open>The items a \<^verbatim>\<open>for\<close> loop over \<^verbatim>\<open>obj\<close> visits.\<close>

definition py_iter :: "json \<Rightarrow> py_exc + json list" where
  "py_iter obj =
     (case obj of
        JList xs \<Rightarrow> Inr xs
      | JStr s \<Rightarrow> Inr (map (\<lambda>c. JStr [c]) s)
      | JObj kvs \<Rightarrow> Inr (map (\<lambda>kv. JStr (fst kv)) kvs)
      | _ \<Rightarrow> Inl (TypeError NotIterable (type_of obj)))"

section \<open>The context\<close>

text \<open>
  The context is a Python dictionary: a finite map from keys to values. Every key that a
  command reads is a string; the one key that may not be a string is the value found under
  \<^verbatim>\<open>set_context\<close>, under which a result is stored.
\<close>

type_synonym ctx = "json \<rightharpoonup> json"

text \<open>\<^verbatim>\<open>context.get(k, default)\<close>\<close>

definition ctx_get :: "ctx \<Rightarrow> string \<Rightarrow> json \<Rightarrow> json" where
  "ctx_get c k dflt = (case c (JStr k) of Some v \<Rightarrow> v | None \<Rightarrow> dflt)"

text \<open>\<^verbatim>\<open>context[k] = v\<close> for a string \<^verbatim>\<open>k\<close>\<close>

definition ctx_set :: "ctx \<Rightarrow> string \<Rightarrow> json \<Rightarrow> ctx" where
  "ctx_set c k v = c(JStr k \<mapsto> v)"

text \<open>\<^verbatim>\<open>context[k] = v\<close> for any object \<^verbatim>\<open>k\<close>: lists and dictionaries are unhashable.\<close>

fun hashable :: "json \<Rightarrow> bool" where
  "hashable (JList _) = False"
| "hashable (JObj _) = False"
| "hashable _ = True"

definition ctx_setitem :: "ctx \<Rightarrow> json \<Rightarrow> json \<Rightarrow> py_exc + ctx" where
  "ctx_setitem c k v =
     (if hashable k then Inr (c(k \<mapsto> v)) else Inl (TypeError Unhashable (type_of k)))"

text \<open>
  The first two lines of every command:
  \<^verbatim>\<open>set_name = context.get("set_context", "prev")\<close> and
  \<^verbatim>\<open>error_key = f"{set_name}_error"\<close>.
\<close>

definition set_name_of :: "ctx \<Rightarrow> json" where
  "set_name_of c = ctx_get c ''set_context'' (JStr ''prev'')"

definition error_key_of :: "py_runtime \<Rightarrow> ctx \<Rightarrow> string" where
  "error_key_of py c = fstr py (set_name_of c) @ ''_error''"

section \<open>The HTTP transport\<close>

text \<open>
  \<^verbatim>\<open>requests.post(endpoint, headers=headers, data=json.dumps(payload))\<close> is outside the
  repository. A request is recorded with the payload that \<^verbatim>\<open>json.dumps\<close> serialises. The
  call returns a response, raises a \<^verbatim>\<open>requests.RequestException\<close>, or raises an exception
  of another class; \<^verbatim>\<open>response.json()\<close> returns the decoded body or raises when the body
  is not JSON.
\<close>

record request =
  url :: string
  headers :: "(string \<times> string) list"
  payload :: json

record response =
  status_code :: int
  body_text :: string
  body_json :: "string + json"

datatype post_result =
    Raises_RequestException string
  | Raises_other string
  | Returns response

type_synonym transport = "request \<Rightarrow> post_result"

definition response_json :: "response \<Rightarrow> py_exc + json" where
  "response_json r = (case body_json r of Inl m \<Rightarrow> Inl (JSONDecodeError m) | Inr v \<Rightarrow> Inr v)"

text \<open>
  What a call of a command leaves behind: the integer it returned or the exception that
  left it, the context as mutated up to that point, and the calls it made to the outside
  (for the three REST commands, the requests it posted).
\<close>

record 'call outcome =
  returned :: "py_exc + int"
  ctx_after :: ctx
  calls :: "'call list"

definition http_error :: "py_runtime \<Rightarrow> response \<Rightarrow> string" where
  "http_error py r =
     ''API returned HTTP '' @ fstr py (JInt (status_code r)) @ '': '' @ body_text r"

section \<open>Text generation\<close>

definition text_usage :: string where
  "text_usage =
     ''Usage: ai_mistral_text <prompt> [reasoning_effort]\<newline>'' @
     ''ai_mistral_text:\<newline>'' @
     ''    args:\<newline>'' @
     ''        - prompt\<newline>'' @
     ''        - reasoning_effort (optional) // High; defaults to None\<newline>'' @
     ''    context:\<newline>'' @
     ''        - MISTRAL_API_KEY: The API key for accessing the Mistral API.\<newline>'' @
     ''        - SYSTEM_PROMPT: The system prompt to be used in the API call.\<newline>'' @
     ''        - MISTRAL_MODEL: Optional custom model to use.\<newline>'' @
     ''        - MISTRAL_MESSAGES: Optional fully custom message list.\<newline>'' @
     ''        - MISTRAL_TEMPERATURE: Optional float (0.0'' @
     [CHR 0xC3, CHR 0xA2, CHR 0xE2, CHR 0x82, CHR 0xAC, CHR 0xE2, CHR 0x80, CHR 0x9C] @
     ''2.0) for sampling randomness.\<newline>'' @
     ''        - MISTRAL_K: Optional int for top-k sampling.\<newline>''"

definition message :: "string \<Rightarrow> json \<Rightarrow> json" where
  "message role content = JObj [(''role'', JStr role), (''content'', content)]"

text \<open>
  Lines 48 to 55. The list under \<^verbatim>\<open>MISTRAL_MESSAGES\<close> is not copied: \<^verbatim>\<open>append\<close>
  changes the list that the context holds, so the context is returned with it. A value
  that is not a list has no \<^verbatim>\<open>append\<close>.
\<close>

definition build_messages :: "ctx \<Rightarrow> json \<Rightarrow> json \<Rightarrow> py_exc + (json list \<times> ctx)" where
  "build_messages c system_prompt prompt =
     (case c (JStr ''MISTRAL_MESSAGES'') of
        Some m \<Rightarrow>
          (case m of
             JList ms \<Rightarrow>
               Inr (ms @ [message ''user'' prompt],
                    ctx_set c ''MISTRAL_MESSAGES'' (JList (ms @ [message ''user'' prompt])))
           | _ \<Rightarrow> Inl (AttributeError (type_of m) ''append''))
      | None \<Rightarrow>
          Inr ((if truthy system_prompt then [message ''system'' system_prompt] else [])
                 @ [message ''user'' prompt], c))"

text \<open>Lines 57 to 72: the payload and the headers.\<close>

definition text_request :: "py_runtime \<Rightarrow> ctx \<Rightarrow> json \<Rightarrow> json \<Rightarrow> json \<Rightarrow> json list \<Rightarrow> request" where
  "text_request py c api_key model reasoning_effort messages =
     \<lparr> url = ''https://api.mistral.ai/v1/chat/completions'',
       headers = [(''Authorization'', ''Bearer '' @ fstr py api_key),
                  (''Content-Type'', ''application/json'')],
       payload = JObj
         ([(''model'', model), (''messages'', JList messages),
           (''reasoning_effort'', reasoning_effort)]
          @ (case c (JStr ''MISTRAL_TEMPERATURE'') of
               Some t \<Rightarrow> [(''temperature'', t)] | None \<Rightarrow> [])
          @ (case c (JStr ''MISTRAL_K'') of Some k \<Rightarrow> [(''k'', k)] | None \<Rightarrow> [])) \<rparr>"

text \<open>
  Lines 84 and 85:
  \<^verbatim>\<open>decoded.get('choices', [{}])[0].get('message', {}).get('content', '')\<close>.
\<close>

definition first_choice_content :: "json \<Rightarrow> py_exc + json" where
  "first_choice_content decoded =
     (case py_get decoded ''choices'' (JList [JObj []]) of
        Inl e \<Rightarrow> Inl e
      | Inr choices \<Rightarrow>
          (case py_index0 choices of
             Inl e \<Rightarrow> Inl e
           | Inr choice \<Rightarrow>
               (case py_get choice ''message'' (JObj []) of
                  Inl e \<Rightarrow> Inl e
                | Inr msg \<Rightarrow> py_get msg ''content'' (JStr ''''))))"

definition ai_mistral_text :: "py_runtime \<Rightarrow> transport \<Rightarrow> json list \<Rightarrow> ctx \<Rightarrow> request outcome" where
  "ai_mistral_text py post args c =
     (let set_name = set_name_of c;
          error_key = error_key_of py c
      in
      if args = [] then
        \<lparr> returned = Inr 1, ctx_after = ctx_set c error_key (JStr text_usage), calls = [] \<rparr>
      else
      let api_key = ctx_get c ''MISTRAL_API_KEY'' JNull in
      if \<not> truthy api_key then
        \<lparr> returned = Inr 1,
          ctx_after = ctx_set c error_key (JStr ''Error: MISTRAL_API_KEY is not set in context.''),
          calls = [] \<rparr>
      else
      let prompt = hd args;
          reasoning_effort = (if length args > 1 then args ! 1 else JNull);
          system_prompt = ctx_get c ''SYSTEM_PROMPT'' (JStr '''');
          model = ctx_get c ''MISTRAL_MODEL'' (JStr ''mistral-large-latest'')
      in
      case build_messages c system_prompt prompt of
        Inl e \<Rightarrow> \<lparr> returned = Inl e, ctx_after = c, calls = [] \<rparr>
      | Inr (messages, c1) \<Rightarrow>
          let req = text_request py c1 api_key model reasoning_effort messages in
          (case post req of
             Raises_RequestException m \<Rightarrow>
               \<lparr> returned = Inr 1,
                 ctx_after = ctx_set c1 error_key
                   (JStr (''Request error: '' @ exc_text py (RequestException m))),
                 calls = [req] \<rparr>
           | Raises_other m \<Rightarrow> \<lparr> returned = Inl (LibraryError m), ctx_after = c1, calls = [req] \<rparr>
           | Returns r \<Rightarrow>
               if status_code r \<noteq> 200 then
                 \<lparr> returned = Inr 1,
                   ctx_after = ctx_set c1 error_key (JStr (http_error py r)),
                   calls = [req] \<rparr>
               else
               (case response_json r of
                  Inl e \<Rightarrow> \<lparr> returned = Inl e, ctx_after = c1, calls = [req] \<rparr>
                | Inr decoded \<Rightarrow>
                    (case first_choice_content decoded of
                       Inl e \<Rightarrow> \<lparr> returned = Inl e, ctx_after = c1, calls = [req] \<rparr>
                     | Inr content \<Rightarrow>
                         (case ctx_setitem c1 set_name content of
                            Inl e \<Rightarrow> \<lparr> returned = Inl e, ctx_after = c1, calls = [req] \<rparr>
                          | Inr c2 \<Rightarrow>
                              \<lparr> returned = Inr 0, ctx_after = c2, calls = [req] \<rparr>)))))"

section \<open>Embeddings\<close>

text \<open>Line 69: \<^verbatim>\<open>[item.get("embedding") for item in ...]\<close>, item by item.\<close>

fun item_embeddings :: "json list \<Rightarrow> py_exc + json list" where
  "item_embeddings [] = Inr []"
| "item_embeddings (item # items) =
     (case py_get item ''embedding'' JNull of
        Inl e \<Rightarrow> Inl e
      | Inr v \<Rightarrow>
          (case item_embeddings items of
             Inl e \<Rightarrow> Inl e
           | Inr vs \<Rightarrow> Inr (v # vs)))"

definition is_str :: "json \<Rightarrow> bool" where
  "is_str v = (case v of JStr _ \<Rightarrow> True | _ \<Rightarrow> False)"

text \<open>Lines 68 to 75, the body of the \<^verbatim>\<open>try\<close> up to the store.\<close>

definition store_embeddings :: "response \<Rightarrow> json list \<Rightarrow> json \<Rightarrow> ctx \<Rightarrow> py_exc + ctx" where
  "store_embeddings r args set_name c =
     (case response_json r of
        Inl e \<Rightarrow> Inl e
      | Inr decoded \<Rightarrow>
          (case py_get decoded ''data'' (JList []) of
             Inl e \<Rightarrow> Inl e
           | Inr d \<Rightarrow>
               (case py_iter d of
                  Inl e \<Rightarrow> Inl e
                | Inr items \<Rightarrow>
                    (case item_embeddings items of
                       Inl e \<Rightarrow> Inl e
                     | Inr embeddings \<Rightarrow>
                         if length embeddings = 1 \<and> is_str (hd args)
                         then ctx_setitem c set_name (hd embeddings)
                         else ctx_setitem c set_name (JList embeddings)))))"

definition embeddings_request :: "py_runtime \<Rightarrow> json \<Rightarrow> json \<Rightarrow> json \<Rightarrow> request" where
  "embeddings_request py api_key model input_text =
     \<lparr> url = ''https://api.mistral.ai/v1/embeddings'',
       headers = [(''Authorization'', ''Bearer '' @ fstr py api_key),
                  (''Content-Type'', ''application/json'')],
       payload = JObj [(''model'', model), (''input'', input_text)] \<rparr>"

definition ai_mistral_embeddings ::
  "py_runtime \<Rightarrow> transport \<Rightarrow> json list \<Rightarrow> ctx \<Rightarrow> request outcome" where
  "ai_mistral_embeddings py post args c =
     (let set_name = set_name_of c;
          error_key = error_key_of py c
      in
      if args = [] \<or> hd args = JNull then
        \<lparr> returned = Inr (- 1),
          ctx_after = ctx_set c error_key (JStr ''Usage: ai_mistral_embeddings <text>''),
          calls = [] \<rparr>
      else
      let api_key = ctx_get c ''MISTRAL_API_KEY'' JNull in
      if \<not> truthy api_key then
        \<lparr> returned = Inr (- 1),
          ctx_after = ctx_set c error_key (JStr ''Error: MISTRAL_API_KEY not found in context.''),
          calls = [] \<rparr>
      else
      let input_text = hd args;
          model = ctx_get c ''MISTRAL_MODEL'' (JStr ''mistral-embed'');
          req = embeddings_request py api_key model input_text
      in
      case post req of
        Raises_RequestException m \<Rightarrow>
          \<lparr> returned = Inr (- 1),
            ctx_after = ctx_set c error_key
              (JStr (''Request error: '' @ exc_text py (RequestException m))),
            calls = [req] \<rparr>
      | Raises_other m \<Rightarrow> \<lparr> returned = Inl (LibraryError m), ctx_after = c, calls = [req] \<rparr>
      | Returns r \<Rightarrow>
          if status_code r \<noteq> 200 then
            \<lparr> returned = Inr (- 1),
              ctx_after = ctx_set c error_key (JStr (http_error py r)),
              calls = [req] \<rparr>
          else
          (case store_embeddings r args set_name c of
             Inr c1 \<Rightarrow> \<lparr> returned = Inr 0, ctx_after = c1, calls = [req] \<rparr>
           | Inl e \<Rightarrow>
               \<lparr> returned = Inr (- 1),
                 ctx_after = ctx_set c error_key
                   (JStr (''Error parsing response: '' @ exc_text py e)),
                 calls = [req] \<rparr>))"

section \<open>Moderation\<close>

definition moderation_usage :: json where
  "moderation_usage =
     JObj
       [(''description'', JStr ''Moderate text using Mistral Moderation API''),
        (''args'', JList [JStr ''input_text (required) - Text to moderate'']),
        (''context'',
           JList
             [JStr ''MISTRAL_API_KEY: The API key for accessing the Mistral API'',
              JStr (''MISTRAL_MODERATION_MODEL: (optional) Model to use '' @
                    ''(default: mistral-moderation-latest)'')]),
        (''example'',
           JStr (''mistral_moderations(['' @ [CHR 0x22] @ ''This is some text to moderate'' @
                 [CHR 0x22] @ ''], context)''))]"

definition moderations_request :: "py_runtime \<Rightarrow> json \<Rightarrow> json \<Rightarrow> json \<Rightarrow> request" where
  "moderations_request py api_key model input_text =
     \<lparr> url = ''https://api.mistral.ai/v1/moderations'',
       headers = [(''Authorization'', ''Bearer '' @ fstr py api_key),
                  (''Content-Type'', ''application/json'')],
       payload = JObj [(''input'', input_text), (''model'', model)] \<rparr>"

text \<open>Lines 73 and 74, the body of the \<^verbatim>\<open>try\<close> up to the store.\<close>

definition store_moderation :: "response \<Rightarrow> json \<Rightarrow> ctx \<Rightarrow> py_exc + ctx" where
  "store_moderation r set_name c =
     (case response_json r of
        Inl e \<Rightarrow> Inl e
      | Inr result \<Rightarrow> ctx_setitem c set_name result)"

definition mistral_moderations ::
  "py_runtime \<Rightarrow> transport \<Rightarrow> json list \<Rightarrow> ctx \<Rightarrow> request outcome" where
  "mistral_moderations py post args c =
     (let set_name = set_name_of c;
          error_key = error_key_of py c
      in
      if args = [] \<or> hd args = JNull then
        \<lparr> returned = Inr (- 1),
          ctx_after = ctx_set c (fstr py set_name @ ''_usage'') moderation_usage,
          calls = [] \<rparr>
      else
      let api_key = ctx_get c ''MISTRAL_API_KEY'' JNull in
      if \<not> truthy api_key then
        \<lparr> returned = Inr (- 1),
          ctx_after = ctx_set c error_key (JStr ''Error: MISTRAL_API_KEY is not set in context''),
          calls = [] \<rparr>
      else
      let input_text = hd args;
          model = ctx_get c ''MISTRAL_MODERATION_MODEL'' (JStr ''mistral-moderation-latest'');
          req = moderations_request py api_key model input_text
      in
      case post req of
        Raises_RequestException m \<Rightarrow>
          \<lparr> returned = Inr (- 1),
            ctx_after = ctx_set c error_key
              (JStr (''Request failed: '' @ exc_text py (RequestException m))),
            calls = [req] \<rparr>
      | Raises_other m \<Rightarrow> \<lparr> returned = Inl (LibraryError m), ctx_after = c, calls = [req] \<rparr>
      | Returns r \<Rightarrow>
          if status_code r \<noteq> 200 then
            \<lparr> returned = Inr (- 1),
              ctx_after = ctx_set c error_key (JStr (http_error py r)),
              calls = [req] \<rparr>
          else
          (case store_moderation r set_name c of
             Inr c1 \<Rightarrow> \<lparr> returned = Inr 0, ctx_after = c1, calls = [req] \<rparr>
           | Inl e \<Rightarrow>
               \<lparr> returned = Inr (- 1),
                 ctx_after = ctx_set c error_key
                   (JStr (''Error parsing response: '' @ exc_text py e)),
                 calls = [req] \<rparr>))"

section \<open>Image generation\<close>

text \<open>
  The Mistral client, the file system, the clock and the UUID generator are outside the
  repository. Each call the command makes to them either returns or raises:
  \<^item> \<^verbatim>\<open>os.makedirs(d, exist_ok=True)\<close> for a string \<^verbatim>\<open>d\<close>;
  \<^item> \<^verbatim>\<open>client.beta.agents.create(model=model, ...)\<close> followed by
    \<^verbatim>\<open>image_agent.id\<close>, for a client built from the API key;
  \<^item> \<^verbatim>\<open>client.beta.conversations.start(agent_id=..., inputs=prompt)\<close>, whose response is
    kept as what \<^verbatim>\<open>response.outputs[-1].content\<close> evaluates to (the chunks a loop over it
    visits, or the exception raised on the way);
  \<^item> \<^verbatim>\<open>client.files.download(file_id=...).read()\<close>;
  \<^item> opening a file for writing and writing the bytes;
  \<^item> \<^verbatim>\<open>uuid.uuid4()\<close>, formatted.
  Building the client, \<^verbatim>\<open>Mistral(api_key=API_KEY)\<close>, sends nothing and is taken to return.
\<close>

type_synonym bytes = "char list"

datatype chunk = ToolFileChunk string | OtherChunk

record mistral_sdk =
  makedirs :: "string \<Rightarrow> py_exc option"
  agents_create :: "json \<Rightarrow> json \<Rightarrow> py_exc + string"
  conversations_start :: "json \<Rightarrow> string \<Rightarrow> json \<Rightarrow> py_exc + (py_exc + chunk list)"
  files_download :: "json \<Rightarrow> string \<Rightarrow> py_exc + bytes"
  write_file :: "string \<Rightarrow> bytes \<Rightarrow> py_exc option"
  uuid4 :: string

datatype sdk_call =
    Makedirs json
  | AgentsCreate json
  | Sleep nat
  | ConversationsStart string json
  | FilesDownload string
  | FileWrite string bytes

text \<open>\<^verbatim>\<open>os.makedirs\<close> refuses a path that is not a string before it touches the disk.\<close>

definition os_makedirs :: "mistral_sdk \<Rightarrow> json \<Rightarrow> py_exc option" where
  "os_makedirs sdk output_dir =
     (case output_dir of
        JStr d \<Rightarrow> makedirs sdk d
      | _ \<Rightarrow> Some (TypeError NotPathLike (type_of output_dir)))"

text \<open>\<^verbatim>\<open>os.path.join(a, b)\<close> on a POSIX system, for two components.\<close>

definition posix_join :: "string \<Rightarrow> string \<Rightarrow> string" where
  "posix_join a b =
     (if b \<noteq> [] \<and> hd b = CHR ''/'' then b
      else if a = [] \<or> last a = CHR ''/'' then a @ b
      else a @ ''/'' @ b)"

definition path_join :: "json \<Rightarrow> string \<Rightarrow> py_exc + string" where
  "path_join output_dir name =
     (case output_dir of
        JStr d \<Rightarrow> Inr (posix_join d name)
      | _ \<Rightarrow> Inl (TypeError NotPathLike (type_of output_dir)))"

text \<open>The decimal digits of a loop index, as \<^verbatim>\<open>f"{i}"\<close> writes them.\<close>

definition digit :: "nat \<Rightarrow> char" where
  "digit d = char_of (48 + d)"

function str_nat :: "nat \<Rightarrow> string" where
  "str_nat n = (if n < 10 then [digit n] else str_nat (n div 10) @ [digit (n mod 10)])"
  by pat_completeness auto
termination
  by (relation "measure id") auto

definition file_name_of :: "mistral_sdk \<Rightarrow> nat \<Rightarrow> string" where
  "file_name_of sdk i = uuid4 sdk @ ''_'' @ str_nat i @ ''.png''"

text \<open>
  Lines 80 to 87: the loop over the enumerated chunks. It carries the index, the list
  \<^verbatim>\<open>saved_files\<close> and the calls made so far, and stops at the first exception.
\<close>

fun save_chunks ::
  "mistral_sdk \<Rightarrow> json \<Rightarrow> json \<Rightarrow> nat \<Rightarrow> chunk list \<Rightarrow> string list \<Rightarrow> sdk_call list
     \<Rightarrow> (py_exc + string list) \<times> sdk_call list" where
  "save_chunks sdk api_key output_dir i [] saved_files trace = (Inr saved_files, trace)"
| "save_chunks sdk api_key output_dir i (OtherChunk # rest) saved_files trace =
     save_chunks sdk api_key output_dir (Suc i) rest saved_files trace"
| "save_chunks sdk api_key output_dir i (ToolFileChunk file_id # rest) saved_files trace =
     (case files_download sdk api_key file_id of
        Inl e \<Rightarrow> (Inl e, trace @ [FilesDownload file_id])
      | Inr file_bytes \<Rightarrow>
          if file_bytes = [] then
            save_chunks sdk api_key output_dir (Suc i) rest saved_files
              (trace @ [FilesDownload file_id])
          else
          (case path_join output_dir (file_name_of sdk i) of
             Inl e \<Rightarrow> (Inl e, trace @ [FilesDownload file_id])
           | Inr file_name \<Rightarrow>
               (case write_file sdk file_name file_bytes of
                  Some e \<Rightarrow>
                    (Inl e, trace @ [FilesDownload file_id, FileWrite file_name file_bytes])
                | None \<Rightarrow>
                    save_chunks sdk api_key output_dir (Suc i) rest
                      (saved_files @ [file_name])
                      (trace @ [FilesDownload file_id, FileWrite file_name file_bytes]))))"

definition ai_mistral_image_gen ::
  "py_runtime \<Rightarrow> mistral_sdk \<Rightarrow> json list \<Rightarrow> ctx \<Rightarrow> sdk_call outcome" where
  "ai_mistral_image_gen py sdk args c =
     (let set_name = set_name_of c;
          error_key = error_key_of py c
      in
      if args = [] \<or> \<not> truthy (hd args) then
        \<lparr> returned = Inr 1,
          ctx_after = ctx_set c error_key
            (JStr ''Usage: ai_mistral_image_gen <prompt>\<newline>Missing prompt in args[0]''),
          calls = [] \<rparr>
      else
      let prompt = hd args;
          api_key = ctx_get c ''MISTRAL_API_KEY'' JNull
      in
      if \<not> truthy api_key then
        \<lparr> returned = Inr 1,
          ctx_after = ctx_set c error_key (JStr ''MISTRAL_API_KEY not set in context.''),
          calls = [] \<rparr>
      else
      let output_dir = ctx_get c ''output_dir'' (JStr ''output'') in
      case os_makedirs sdk output_dir of
        Some e \<Rightarrow> \<lparr> returned = Inl e, ctx_after = c, calls = [Makedirs output_dir] \<rparr>
      | None \<Rightarrow>
          let model = ctx_get c ''MISTRAL_MODEL'' (JStr ''mistral-medium-2505'');
              trace1 = [Makedirs output_dir, AgentsCreate model]
          in
          (case agents_create sdk api_key model of
             Inl e \<Rightarrow>
               \<lparr> returned = Inr 1,
                 ctx_after = ctx_set c error_key
                   (JStr (''Failed to create agent: '' @ exc_text py e)),
                 calls = trace1 \<rparr>
           | Inr agent_id \<Rightarrow>
               let trace2 = trace1 @ [Sleep 2, ConversationsStart agent_id prompt] in
               (case conversations_start sdk api_key agent_id prompt of
                  Inl e \<Rightarrow>
                    \<lparr> returned = Inr 1,
                      ctx_after = ctx_set c error_key
                        (JStr (''Conversation error: '' @ exc_text py e)),
                      calls = trace2 \<rparr>
                | Inr content \<Rightarrow>
                    (case content of
                       Inl e \<Rightarrow>
                         \<lparr> returned = Inr 1,
                           ctx_after = ctx_set c error_key
                             (JStr (''Error saving images: '' @ exc_text py e)),
                           calls = trace2 \<rparr>
                     | Inr chunks \<Rightarrow>
                         (case save_chunks sdk api_key output_dir 0 chunks [] trace2 of
                            (Inl e, trace3) \<Rightarrow>
                              \<lparr> returned = Inr 1,
                                ctx_after = ctx_set c error_key
                                  (JStr (''Error saving images: '' @ exc_text py e)),
                                calls = trace3 \<rparr>
                          | (Inr saved_files, trace3) \<Rightarrow>
                              if saved_files = [] then
                                \<lparr> returned = Inr 1,
                                  ctx_after = ctx_set c error_key
                                    (JStr ''No images were generated.''),
                                  calls = trace3 \<rparr>
                              else
                              (case ctx_setitem c set_name (JStr (hd saved_files)) of
                                 Inl e \<Rightarrow>
                                   \<lparr> returned = Inr 1,
                                     ctx_after = ctx_set c error_key
                                       (JStr (''Error saving images: '' @ exc_text py e)),
                                     calls = trace3 \<rparr>
                               | Inr c1 \<Rightarrow>
                                   \<lparr> returned = Inr 0,
                                     ctx_after = ctx_set c1 (fstr py set_name @ ''_all'')
                                       (JList (map JStr saved_files)),
                                     calls = trace3 \<rparr>))))))"

section \<open>Readings of an outcome and sample inputs\<close>

text \<open>The message list a request carries, and its last message.\<close>

definition request_messages :: "request \<Rightarrow> json option" where
  "request_messages req =
     (case payload req of JObj kvs \<Rightarrow> map_of kvs ''messages'' | _ \<Rightarrow> None)"

definition last_message :: "request \<Rightarrow> json option" where
  "last_message req =
     (case request_messages req of
        Some (JList ms) \<Rightarrow> (if ms = [] then None else Some (last ms))
      | _ \<Rightarrow> None)"

text \<open>The entry \<^verbatim>\<open>MISTRAL_MESSAGES\<close> is absent or holds a list.\<close>

definition messages_usable :: "ctx \<Rightarrow> bool" where
  "messages_usable c =
     (case c (JStr ''MISTRAL_MESSAGES'') of
        None \<Rightarrow> True
      | Some v \<Rightarrow> (case v of JList _ \<Rightarrow> True | _ \<Rightarrow> False))"

text \<open>The context has no usable API key: the entry is absent or holds a false value.\<close>

definition api_key_missing :: "ctx \<Rightarrow> bool" where
  "api_key_missing c =
     (case c (JStr ''MISTRAL_API_KEY'') of None \<Rightarrow> True | Some v \<Rightarrow> \<not> truthy v)"

text \<open>\<^verbatim>\<open>item.get("embedding")\<close> for an item that is a dictionary.\<close>

definition embedding_of :: "(string \<times> json) list \<Rightarrow> json" where
  "embedding_of item = (case map_of item ''embedding'' of Some v \<Rightarrow> v | None \<Rightarrow> JNull)"





text \<open>A runtime, a transport and a client to evaluate the commands on.\<close>

definition sample_py :: py_runtime where
  "sample_py = \<lparr> str_of = (\<lambda>_. ''?''), exc_str = (\<lambda>_. ''?'') \<rparr>"

definition ok_response :: "json \<Rightarrow> response" where
  "ok_response v = \<lparr> status_code = 200, body_text = [], body_json = Inr v \<rparr>"

definition not_json :: response where
  "not_json = \<lparr> status_code = 200, body_text = ''<html>'', body_json = Inl ''no JSON'' \<rparr>"

definition always :: "response \<Rightarrow> transport" where
  "always r = (\<lambda>_. Returns r)"

definition sample_sdk :: "chunk list \<Rightarrow> mistral_sdk" where
  "sample_sdk chunks =
     \<lparr> makedirs = (\<lambda>_. None),
       agents_create = (\<lambda>_ _. Inr ''ag_1''),
       conversations_start = (\<lambda>_ _ _. Inr (Inr chunks)),
       files_download = (\<lambda>_ _. Inr ''PNG''),
       write_file = (\<lambda>_ _. None),
       uuid4 = ''u'' \<rparr>"

definition with_key :: ctx where
  "with_key = [JStr ''MISTRAL_API_KEY'' \<mapsto> JStr ''k'']"

section \<open>Shared facts\<close>

lemma key_suffix_neq: "sfx \<noteq> [] \<Longrightarrow> JStr (fstr py v @ sfx) \<noteq> v"
  by (cases v) (simp_all add: fstr_def)

lemma error_key_neq_set_name: "JStr (error_key_of py c) \<noteq> set_name_of c"
  unfolding error_key_of_def by (rule key_suffix_neq) simp

lemma error_key_not_messages: "error_key_of py c \<noteq> ''MISTRAL_MESSAGES''"
proof
  assume "error_key_of py c = ''MISTRAL_MESSAGES''"
  then have "last (fstr py (set_name_of c) @ ''_error'') = last ''MISTRAL_MESSAGES''"
    by (simp only: error_key_of_def)
  then show False by simp
qed

lemma text_usage_nonempty: "text_usage \<noteq> []"
  by (simp add: text_usage_def)

lemma api_key_missing_iff: "api_key_missing c \<longleftrightarrow> \<not> truthy (ctx_get c ''MISTRAL_API_KEY'' JNull)"
  by (simp add: api_key_missing_def ctx_get_def split: option.splits)

lemma mentions_key_text:
  "sublist ''MISTRAL_API_KEY'' ''Error: MISTRAL_API_KEY is not set in context.''"
  by code_simp

lemma mentions_key_embeddings:
  "sublist ''MISTRAL_API_KEY'' ''Error: MISTRAL_API_KEY not found in context.''"
  by code_simp

lemma mentions_key_moderations:
  "sublist ''MISTRAL_API_KEY'' ''Error: MISTRAL_API_KEY is not set in context''"
  by code_simp

lemma mentions_key_image:
  "sublist ''MISTRAL_API_KEY'' ''MISTRAL_API_KEY not set in context.''"
  by code_simp

section \<open>The claims\<close>

text \<open>
  C1. The claim: no command ever lets an exception reach its caller; every failure of the
  external call or of response decoding is caught and turned into a stored error and a
  nonzero status. The text command decodes the response outside any \<^verbatim>\<open>try\<close>: on a 200
  response whose body is the object \<^verbatim>\<open>{"choices": []}\<close> the \<^verbatim>\<open>IndexError\<close> of
  \<^verbatim>\<open>[0]\<close> leaves the command, and on a 200 response whose body is not JSON the decoding
  error does. The embeddings command, which wraps the same step in
  \<^verbatim>\<open>try ... except Exception\<close>, returns -1 on that second response.
\<close>

theorem C1_text_decoding_failure_escapes:
  "returned (ai_mistral_text sample_py
       (always (ok_response (JObj [(''choices'', JList [])]))) [JStr ''Hello''] with_key)
     = Inl IndexError
   \<and> returned (ai_mistral_text sample_py (always not_json) [JStr ''Hello''] with_key)
     = Inl (JSONDecodeError ''no JSON'')
   \<and> returned (ai_mistral_embeddings sample_py (always not_json) [JStr ''Hello''] with_key)
     = Inr (- 1)"
  by (simp add: ai_mistral_text_def ai_mistral_embeddings_def with_key_def always_def
      ok_response_def not_json_def set_name_of_def error_key_of_def ctx_get_def Let_def
      build_messages_def response_json_def first_choice_content_def py_get_def py_index0_def
      store_embeddings_def)

text \<open>
  C2. The claim: called with an empty argument list, each of the four commands returns a
  failure status, writes a non-empty string under \<^verbatim>\<open>context["{set_context}_error"]\<close> and
  does not write \<^verbatim>\<open>context[set_context]\<close>. The moderation command does not write the
  error key: on the empty context it leaves \<^verbatim>\<open>prev_error\<close> absent.
\<close>

theorem C2_moderation_writes_no_error:
  "ctx_after (mistral_moderations sample_py (always not_json) [] Map.empty) (JStr ''prev_error'')
     = None"
  by (simp add: mistral_moderations_def set_name_of_def error_key_of_def ctx_get_def ctx_set_def
      fstr_def Let_def)

text \<open>
  C2, as amended. Called with an empty argument list and any context, the text and image
  commands return 1 and the embeddings command returns -1, each writes its non-empty usage
  string under \<^verbatim>\<open>context["{set_context}_error"]\<close>, changes nothing else in the context and
  so does not write \<^verbatim>\<open>context[set_context]\<close>, and makes no outside call. The moderation
  command returns -1, writes its usage object under \<^verbatim>\<open>context["{set_context}_usage"]\<close>,
  does not write \<^verbatim>\<open>context[set_context]\<close> and makes no outside call.
\<close>

theorem C2_empty_arguments:
  "returned (ai_mistral_text py post [] c) = Inr 1
   \<and> ctx_after (ai_mistral_text py post [] c) = c(JStr (error_key_of py c) \<mapsto> JStr text_usage)
   \<and> text_usage \<noteq> []
   \<and> ctx_after (ai_mistral_text py post [] c) (set_name_of c) = c (set_name_of c)
   \<and> calls (ai_mistral_text py post [] c) = []
   \<and> returned (ai_mistral_embeddings py post [] c) = Inr (- 1)
   \<and> ctx_after (ai_mistral_embeddings py post [] c)
       = c(JStr (error_key_of py c) \<mapsto> JStr ''Usage: ai_mistral_embeddings <text>'')
   \<and> ctx_after (ai_mistral_embeddings py post [] c) (set_name_of c) = c (set_name_of c)
   \<and> calls (ai_mistral_embeddings py post [] c) = []
   \<and> returned (ai_mistral_image_gen py sdk [] c) = Inr 1
   \<and> ctx_after (ai_mistral_image_gen py sdk [] c)
       = c(JStr (error_key_of py c)
             \<mapsto> JStr ''Usage: ai_mistral_image_gen <prompt>\<newline>Missing prompt in args[0]'')
   \<and> ctx_after (ai_mistral_image_gen py sdk [] c) (set_name_of c) = c (set_name_of c)
   \<and> calls (ai_mistral_image_gen py sdk [] c) = []
   \<and> returned (mistral_moderations py post [] c) = Inr (- 1)
   \<and> ctx_after (mistral_moderations py post [] c)
       = c(JStr (fstr py (set_name_of c) @ ''_usage'') \<mapsto> moderation_usage)
   \<and> ctx_after (mistral_moderations py post [] c) (set_name_of c) = c (set_name_of c)
   \<and> calls (mistral_moderations py post [] c) = []"
proof -
  have e: "JStr (error_key_of py c) \<noteq> set_name_of c"
    by (rule error_key_neq_set_name)
  have u: "JStr (fstr py (set_name_of c) @ ''_usage'') \<noteq> set_name_of c"
    by (rule key_suffix_neq) simp
  have "ai_mistral_text py post [] c =
      \<lparr> returned = Inr 1, ctx_after = c(JStr (error_key_of py c) \<mapsto> JStr text_usage),
        calls = [] \<rparr>"
    by (simp add: ai_mistral_text_def Let_def ctx_set_def)
  moreover have "ai_mistral_embeddings py post [] c =
      \<lparr> returned = Inr (- 1),
        ctx_after = c(JStr (error_key_of py c) \<mapsto> JStr ''Usage: ai_mistral_embeddings <text>''),
        calls = [] \<rparr>"
    by (simp add: ai_mistral_embeddings_def Let_def ctx_set_def)
  moreover have "ai_mistral_image_gen py sdk [] c =
      \<lparr> returned = Inr 1,
        ctx_after = c(JStr (error_key_of py c)
          \<mapsto> JStr ''Usage: ai_mistral_image_gen <prompt>\<newline>Missing prompt in args[0]''),
        calls = [] \<rparr>"
    by (simp add: ai_mistral_image_gen_def Let_def ctx_set_def)
  moreover have "mistral_moderations py post [] c =
      \<lparr> returned = Inr (- 1),
        ctx_after = c(JStr (fstr py (set_name_of c) @ ''_usage'') \<mapsto> moderation_usage),
        calls = [] \<rparr>"
    by (simp add: mistral_moderations_def Let_def ctx_set_def)
  ultimately show ?thesis
    using e u text_usage_nonempty by simp
qed

text \<open>
  C3. When the context has no usable \<^verbatim>\<open>MISTRAL_API_KEY\<close> (the entry is absent or false)
  and the arguments pass the command's validation, each of the four commands returns its
  failure status, writes under the error key a message that contains the text
  \<^verbatim>\<open>MISTRAL_API_KEY\<close>, and makes no outside call, so no network call.
\<close>

theorem C3_missing_api_key:
  assumes "api_key_missing c"
  shows
    "(args \<noteq> [] \<longrightarrow>
        returned (ai_mistral_text py post args c) = Inr 1
        \<and> ctx_after (ai_mistral_text py post args c)
            = c(JStr (error_key_of py c) \<mapsto> JStr ''Error: MISTRAL_API_KEY is not set in context.'')
        \<and> sublist ''MISTRAL_API_KEY'' ''Error: MISTRAL_API_KEY is not set in context.''
        \<and> calls (ai_mistral_text py post args c) = [])
     \<and> (args \<noteq> [] \<and> hd args \<noteq> JNull \<longrightarrow>
        returned (ai_mistral_embeddings py post args c) = Inr (- 1)
        \<and> ctx_after (ai_mistral_embeddings py post args c)
            = c(JStr (error_key_of py c) \<mapsto> JStr ''Error: MISTRAL_API_KEY not found in context.'')
        \<and> sublist ''MISTRAL_API_KEY'' ''Error: MISTRAL_API_KEY not found in context.''
        \<and> calls (ai_mistral_embeddings py post args c) = [])
     \<and> (args \<noteq> [] \<and> hd args \<noteq> JNull \<longrightarrow>
        returned (mistral_moderations py post args c) = Inr (- 1)
        \<and> ctx_after (mistral_moderations py post args c)
            = c(JStr (error_key_of py c) \<mapsto> JStr ''Error: MISTRAL_API_KEY is not set in context'')
        \<and> sublist ''MISTRAL_API_KEY'' ''Error: MISTRAL_API_KEY is not set in context''
        \<and> calls (mistral_moderations py post args c) = [])
     \<and> (args \<noteq> [] \<and> truthy (hd args) \<longrightarrow>
        returned (ai_mistral_image_gen py sdk args c) = Inr 1
        \<and> ctx_after (ai_mistral_image_gen py sdk args c)
            = c(JStr (error_key_of py c) \<mapsto> JStr ''MISTRAL_API_KEY not set in context.'')
        \<and> sublist ''MISTRAL_API_KEY'' ''MISTRAL_API_KEY not set in context.''
        \<and> calls (ai_mistral_image_gen py sdk args c) = [])"
proof -
  from assms have k: "\<not> truthy (ctx_get c ''MISTRAL_API_KEY'' JNull)"
    by (simp add: api_key_missing_iff)
  have t: "args \<noteq> [] \<Longrightarrow> ai_mistral_text py post args c =
      \<lparr> returned = Inr 1,
        ctx_after = c(JStr (error_key_of py c)
          \<mapsto> JStr ''Error: MISTRAL_API_KEY is not set in context.''),
        calls = [] \<rparr>"
    using k by (simp add: ai_mistral_text_def Let_def ctx_set_def)
  have e: "args \<noteq> [] \<Longrightarrow> hd args \<noteq> JNull \<Longrightarrow> ai_mistral_embeddings py post args c =
      \<lparr> returned = Inr (- 1),
        ctx_after = c(JStr (error_key_of py c)
          \<mapsto> JStr ''Error: MISTRAL_API_KEY not found in context.''),
        calls = [] \<rparr>"
    using k by (simp add: ai_mistral_embeddings_def Let_def ctx_set_def)
  have m: "args \<noteq> [] \<Longrightarrow> hd args \<noteq> JNull \<Longrightarrow> mistral_moderations py post args c =
      \<lparr> returned = Inr (- 1),
        ctx_after = c(JStr (error_key_of py c)
          \<mapsto> JStr ''Error: MISTRAL_API_KEY is not set in context''),
        calls = [] \<rparr>"
    using k by (simp add: mistral_moderations_def Let_def ctx_set_def)
  have i: "args \<noteq> [] \<Longrightarrow> truthy (hd args) \<Longrightarrow> ai_mistral_image_gen py sdk args c =
      \<lparr> returned = Inr 1,
        ctx_after = c(JStr (error_key_of py c) \<mapsto> JStr ''MISTRAL_API_KEY not set in context.''),
        calls = [] \<rparr>"
    using k by (simp add: ai_mistral_image_gen_def Let_def ctx_set_def)
  show ?thesis
    using t e m i mentions_key_text mentions_key_embeddings mentions_key_moderations
      mentions_key_image
    by simp
qed

text \<open>
  C3 at concrete inputs: the key absent (text, embeddings), the key present but empty
  (moderation) and the key present but zero (image generation).
\<close>

theorem C3_missing_api_key_witness:
  "returned (ai_mistral_text sample_py (always not_json) [JStr ''Hello''] Map.empty) = Inr 1
   \<and> ctx_after (ai_mistral_text sample_py (always not_json) [JStr ''Hello''] Map.empty)
       (JStr ''prev_error'') = Some (JStr ''Error: MISTRAL_API_KEY is not set in context.'')
   \<and> calls (ai_mistral_text sample_py (always not_json) [JStr ''Hello''] Map.empty) = []
   \<and> returned (ai_mistral_embeddings sample_py (always not_json) [JStr ''cat''] Map.empty)
       = Inr (- 1)
   \<and> calls (ai_mistral_embeddings sample_py (always not_json) [JStr ''cat''] Map.empty) = []
   \<and> returned (mistral_moderations sample_py (always not_json) [JStr ''text'']
        [JStr ''MISTRAL_API_KEY'' \<mapsto> JStr '''']) = Inr (- 1)
   \<and> calls (mistral_moderations sample_py (always not_json) [JStr ''text'']
        [JStr ''MISTRAL_API_KEY'' \<mapsto> JStr '''']) = []
   \<and> returned (ai_mistral_image_gen sample_py (sample_sdk []) [JStr ''a cat'']
        [JStr ''MISTRAL_API_KEY'' \<mapsto> JInt 0]) = Inr 1
   \<and> calls (ai_mistral_image_gen sample_py (sample_sdk []) [JStr ''a cat'']
        [JStr ''MISTRAL_API_KEY'' \<mapsto> JInt 0]) = []"
proof -
  have a: "api_key_missing Map.empty"
    by (simp add: api_key_missing_def)
  have b: "api_key_missing [JStr ''MISTRAL_API_KEY'' \<mapsto> JStr '''']"
    by (simp add: api_key_missing_def)
  have d: "api_key_missing [JStr ''MISTRAL_API_KEY'' \<mapsto> JInt 0]"
    by (simp add: api_key_missing_def)
  show ?thesis
    using C3_missing_api_key [OF a, of "[JStr ''Hello'']" sample_py "always not_json"]
      C3_missing_api_key [OF a, of "[JStr ''cat'']" sample_py "always not_json"]
      C3_missing_api_key [OF b, of "[JStr ''text'']" sample_py "always not_json"]
      C3_missing_api_key [OF d, of "[JStr ''a cat'']" sample_py _ "sample_sdk []"]
    by (simp add: error_key_of_def set_name_of_def ctx_get_def fstr_def)
qed

subsection \<open>Embeddings\<close>

lemma item_embeddings_dicts: "item_embeddings (map JObj items) = Inr (map embedding_of items)"
  by (induction items) (simp_all add: py_get_def embedding_of_def)

text \<open>
  What the embeddings command does on a 200 response whose body is a JSON object with a
  list of dictionaries under \<^verbatim>\<open>data\<close>, or with no \<^verbatim>\<open>data\<close> at all.
\<close>

lemma embeddings_on_200:
  assumes args: "args \<noteq> []" "hd args \<noteq> JNull"
    and key: "truthy (ctx_get c ''MISTRAL_API_KEY'' JNull)"
    and post: "post (embeddings_request py (ctx_get c ''MISTRAL_API_KEY'' JNull)
                 (ctx_get c ''MISTRAL_MODEL'' (JStr ''mistral-embed'')) (hd args)) = Returns r"
    and ok: "status_code r = 200"
    and body: "body_json r = Inr (JObj d)"
    and data: "(case map_of d ''data'' of Some v \<Rightarrow> v | None \<Rightarrow> JList []) = JList (map JObj items)"
    and name: "hashable (set_name_of c)"
  shows "returned (ai_mistral_embeddings py post args c) = Inr 0
     \<and> ctx_after (ai_mistral_embeddings py post args c) =
         c(set_name_of c \<mapsto>
            (if length items = 1 \<and> is_str (hd args) then embedding_of (hd items)
             else JList (map embedding_of items)))"
proof -
  have "store_embeddings r args (set_name_of c) c =
      Inr (c(set_name_of c \<mapsto>
            (if length items = 1 \<and> is_str (hd args) then embedding_of (hd items)
             else JList (map embedding_of items))))"
    using body data name
    by (cases items)
      (simp_all add: store_embeddings_def response_json_def py_get_def py_iter_def
        item_embeddings_dicts ctx_setitem_def embedding_of_def)
  then show ?thesis
    using args key post ok by (simp add: ai_mistral_embeddings_def Let_def)
qed

text \<open>
  C4. The embeddings command is called with a string as \<^verbatim>\<open>args[0]\<close>, a usable API key
  and a hashable \<^verbatim>\<open>set_context\<close> (a string, or absent), and the remote answers 200 with an
  object whose \<^verbatim>\<open>data\<close> is a list of dictionaries. If the list has exactly one item,
  \<^verbatim>\<open>context[set_context]\<close> becomes that item's embedding itself, not a one-element list,
  and 0 is returned. If it has more than one item, \<^verbatim>\<open>context[set_context]\<close> becomes the
  list of all the items' embeddings, in order, and 0 is returned.
\<close>

theorem C4_embeddings_result:
  assumes "args = JStr s # rest"
    and "truthy (ctx_get c ''MISTRAL_API_KEY'' JNull)"
    and "hashable (set_name_of c)"
    and "post (embeddings_request py (ctx_get c ''MISTRAL_API_KEY'' JNull)
            (ctx_get c ''MISTRAL_MODEL'' (JStr ''mistral-embed'')) (JStr s)) = Returns r"
    and "status_code r = 200"
    and "body_json r = Inr (JObj d)"
    and "map_of d ''data'' = Some (JList (map JObj items))"
  shows
    "(length items = 1 \<longrightarrow>
        returned (ai_mistral_embeddings py post args c) = Inr 0
        \<and> ctx_after (ai_mistral_embeddings py post args c)
            = c(set_name_of c \<mapsto> embedding_of (hd items)))
     \<and> (length items > 1 \<longrightarrow>
        returned (ai_mistral_embeddings py post args c) = Inr 0
        \<and> ctx_after (ai_mistral_embeddings py post args c)
            = c(set_name_of c \<mapsto> JList (map embedding_of items)))"
  using assms
    embeddings_on_200 [of args c post py r d items]
  by (simp add: is_str_def)

text \<open>
  C4 on the scenario of the specification: \<^verbatim>\<open>args = ["cat"]\<close> and one embedding
  \<^verbatim>\<open>[0.1, 0.2]\<close> give \<^verbatim>\<open>context["prev"] == [0.1, 0.2]\<close>; two embeddings give the list
  of both.
\<close>

theorem C4_embeddings_result_witness:
  "returned (ai_mistral_embeddings sample_py
      (always (ok_response (JObj [(''data'',
          JList [JObj [(''embedding'', JList [JFloat 0.1, JFloat 0.2])]])])))
      [JStr ''cat''] with_key) = Inr 0
   \<and> ctx_after (ai_mistral_embeddings sample_py
      (always (ok_response (JObj [(''data'',
          JList [JObj [(''embedding'', JList [JFloat 0.1, JFloat 0.2])]])])))
      [JStr ''cat''] with_key) (JStr ''prev'') = Some (JList [JFloat 0.1, JFloat 0.2])
   \<and> ctx_after (ai_mistral_embeddings sample_py
      (always (ok_response (JObj [(''data'',
          JList [JObj [(''embedding'', JList [JFloat 0.1])],
                 JObj [(''embedding'', JList [JFloat 0.2])]])])))
      [JStr ''cat''] with_key) (JStr ''prev'')
      = Some (JList [JList [JFloat 0.1], JList [JFloat 0.2]])"
proof -
  have k: "truthy (ctx_get with_key ''MISTRAL_API_KEY'' JNull)"
    by (simp add: with_key_def ctx_get_def)
  have h: "hashable (set_name_of with_key)"
    by (simp add: with_key_def set_name_of_def ctx_get_def)
  have n: "set_name_of with_key = JStr ''prev''"
    by (simp add: with_key_def set_name_of_def ctx_get_def)
  have one: "map_of [(''data'', JList [JObj [(''embedding'', JList [JFloat 0.1, JFloat 0.2])]])]
      ''data'' = Some (JList (map JObj [[(''embedding'', JList [JFloat 0.1, JFloat 0.2])]]))"
    by simp
  have two: "map_of [(''data'', JList [JObj [(''embedding'', JList [JFloat 0.1])],
                 JObj [(''embedding'', JList [JFloat 0.2])]])]
      ''data'' = Some (JList (map JObj [[(''embedding'', JList [JFloat 0.1])],
                 [(''embedding'', JList [JFloat 0.2])]]))"
    by simp
  show ?thesis
    using
      C4_embeddings_result [OF refl k h _ _ _ one, of "always (ok_response (JObj [(''data'',
          JList [JObj [(''embedding'', JList [JFloat 0.1, JFloat 0.2])]])]))" sample_py
          "''cat''" "ok_response (JObj [(''data'',
          JList [JObj [(''embedding'', JList [JFloat 0.1, JFloat 0.2])]])])" "[]"]
      C4_embeddings_result [OF refl k h _ _ _ two, of "always (ok_response (JObj [(''data'',
          JList [JObj [(''embedding'', JList [JFloat 0.1])],
                 JObj [(''embedding'', JList [JFloat 0.2])]])]))" sample_py
          "''cat''" "ok_response (JObj [(''data'',
          JList [JObj [(''embedding'', JList [JFloat 0.1])],
                 JObj [(''embedding'', JList [JFloat 0.2])]])])" "[]"]
    by (simp add: n always_def ok_response_def embedding_of_def)
qed

text \<open>
  C10. The embeddings command is called with an argument that is not \<^verbatim>\<open>None\<close>, a usable
  API key and a hashable \<^verbatim>\<open>set_context\<close>, and the remote answers 200 with an object whose
  \<^verbatim>\<open>data\<close> is the empty list or is absent. The command then stores the empty list under
  \<^verbatim>\<open>context[set_context]\<close> and returns 0: an empty result is a success.
\<close>

theorem C10_embeddings_empty_data:
  assumes "args \<noteq> []" and "hd args \<noteq> JNull"
    and "truthy (ctx_get c ''MISTRAL_API_KEY'' JNull)"
    and "hashable (set_name_of c)"
    and "post (embeddings_request py (ctx_get c ''MISTRAL_API_KEY'' JNull)
            (ctx_get c ''MISTRAL_MODEL'' (JStr ''mistral-embed'')) (hd args)) = Returns r"
    and "status_code r = 200"
    and "body_json r = Inr (JObj d)"
    and "map_of d ''data'' = None \<or> map_of d ''data'' = Some (JList [])"
  shows "returned (ai_mistral_embeddings py post args c) = Inr 0
     \<and> ctx_after (ai_mistral_embeddings py post args c) = c(set_name_of c \<mapsto> JList [])"
proof -
  from assms(8) have
    "(case map_of d ''data'' of Some v \<Rightarrow> v | None \<Rightarrow> JList []) = JList (map JObj [])"
    by auto
  with assms(1-7) embeddings_on_200 [of args c post py r d "[]"] show ?thesis
    by simp
qed

text \<open>C10 at concrete inputs: a body \<^verbatim>\<open>{"data": []}\<close> and a body \<^verbatim>\<open>{}\<close>.\<close>

theorem C10_embeddings_empty_data_witness:
  "returned (ai_mistral_embeddings sample_py (always (ok_response (JObj [(''data'', JList [])])))
      [JStr ''cat''] with_key) = Inr 0
   \<and> ctx_after (ai_mistral_embeddings sample_py
        (always (ok_response (JObj [(''data'', JList [])]))) [JStr ''cat''] with_key)
        (JStr ''prev'') = Some (JList [])
   \<and> returned (ai_mistral_embeddings sample_py (always (ok_response (JObj [])))
        [JStr ''cat''] with_key) = Inr 0
   \<and> ctx_after (ai_mistral_embeddings sample_py (always (ok_response (JObj [])))
        [JStr ''cat''] with_key) (JStr ''prev'') = Some (JList [])"
proof -
  have k: "truthy (ctx_get with_key ''MISTRAL_API_KEY'' JNull)"
    by (simp add: with_key_def ctx_get_def)
  have n: "set_name_of with_key = JStr ''prev''"
    by (simp add: with_key_def set_name_of_def ctx_get_def)
  have h: "hashable (set_name_of with_key)"
    by (simp add: n)
  have a: "[JStr ''cat''] \<noteq> []" and b: "hd [JStr ''cat''] \<noteq> JNull"
    by simp_all
  have full: "map_of [(''data'', JList [])] ''data'' = None
      \<or> map_of [(''data'', JList [])] ''data'' = Some (JList [])"
    by simp
  have none: "map_of ([] :: (string \<times> json) list) ''data'' = None
      \<or> map_of ([] :: (string \<times> json) list) ''data'' = Some (JList [])"
    by simp
  show ?thesis
    using
      C10_embeddings_empty_data [OF a b k h _ _ _ full,
        of "always (ok_response (JObj [(''data'', JList [])]))" sample_py
           "ok_response (JObj [(''data'', JList [])])"]
      C10_embeddings_empty_data [OF a b k h _ _ _ none,
        of "always (ok_response (JObj []))" sample_py "ok_response (JObj [])"]
    by (simp add: n always_def ok_response_def)
qed

subsection \<open>Return statuses\<close>

lemma text_status:
  "returned (ai_mistral_text py post args c) = Inr n \<Longrightarrow> n = 0 \<or> n = 1"
  by (auto simp add: ai_mistral_text_def Let_def
      split: if_splits sum.splits prod.splits post_result.splits)

lemma embeddings_status:
  "returned (ai_mistral_embeddings py post args c) = Inr n \<Longrightarrow> n = 0 \<or> n = - 1"
  by (auto simp add: ai_mistral_embeddings_def Let_def
      split: if_splits sum.splits post_result.splits)

lemma moderations_status:
  "returned (mistral_moderations py post args c) = Inr n \<Longrightarrow> n = 0 \<or> n = - 1"
  by (auto simp add: mistral_moderations_def Let_def
      split: if_splits sum.splits post_result.splits)

lemma image_gen_status:
  "returned (ai_mistral_image_gen py sdk args c) = Inr n \<Longrightarrow> n = 0 \<or> n = 1"
  by (auto simp add: ai_mistral_image_gen_def Let_def
      split: if_splits sum.splits prod.splits option.splits)

text \<open>
  C7. Called with \<^verbatim>\<open>None\<close> as \<^verbatim>\<open>args[0]\<close> and a context without \<^verbatim>\<open>set_context\<close>,
  the moderation command stores its usage object, a dictionary, under
  \<^verbatim>\<open>context["prev_usage"]\<close> and returns -1. Whenever the embeddings or the moderation
  command returns a status, it is 0 or -1; whenever the text or the image command returns a
  status, it is 0 or 1.
\<close>

theorem C7_failure_statuses:
  "(c (JStr ''set_context'') = None \<longrightarrow>
      returned (mistral_moderations py post (JNull # rest) c) = Inr (- 1)
      \<and> ctx_after (mistral_moderations py post (JNull # rest) c)
          = c(JStr ''prev_usage'' \<mapsto> moderation_usage)
      \<and> type_of moderation_usage = T_dict)
   \<and> (returned (ai_mistral_embeddings py post args c) = Inr n \<longrightarrow> n = 0 \<or> n = - 1)
   \<and> (returned (mistral_moderations py post args c) = Inr n \<longrightarrow> n = 0 \<or> n = - 1)
   \<and> (returned (ai_mistral_text py post args c) = Inr n \<longrightarrow> n = 0 \<or> n = 1)
   \<and> (returned (ai_mistral_image_gen py sdk args c) = Inr n \<longrightarrow> n = 0 \<or> n = 1)"
proof -
  have "c (JStr ''set_context'') = None \<Longrightarrow>
      mistral_moderations py post (JNull # rest) c =
        \<lparr> returned = Inr (- 1), ctx_after = c(JStr ''prev_usage'' \<mapsto> moderation_usage),
          calls = [] \<rparr>"
    by (simp add: mistral_moderations_def Let_def set_name_of_def ctx_get_def ctx_set_def
        fstr_def)
  moreover have "type_of moderation_usage = T_dict"
    by (simp add: moderation_usage_def)
  ultimately show ?thesis
    using text_status [of py post args c n] embeddings_status [of py post args c n]
      moderations_status [of py post args c n] image_gen_status [of py sdk args c n]
    by simp
qed

text \<open>
  C7 on the scenario of the specification, \<^verbatim>\<open>args = [None]\<close> on the empty context, and
  each command at an input where it fails: the remote answers 500.
\<close>

theorem C7_failure_statuses_witness:
  "returned (mistral_moderations sample_py (always not_json) [JNull] Map.empty) = Inr (- 1)
   \<and> ctx_after (mistral_moderations sample_py (always not_json) [JNull] Map.empty)
       (JStr ''prev_usage'') = Some moderation_usage
   \<and> returned (ai_mistral_embeddings sample_py
        (always \<lparr> status_code = 500, body_text = ''down'', body_json = Inl ''no JSON'' \<rparr>)
        [JStr ''cat''] with_key) = Inr (- 1)
   \<and> returned (mistral_moderations sample_py
        (always \<lparr> status_code = 500, body_text = ''down'', body_json = Inl ''no JSON'' \<rparr>)
        [JStr ''cat''] with_key) = Inr (- 1)
   \<and> returned (ai_mistral_text sample_py
        (always \<lparr> status_code = 500, body_text = ''down'', body_json = Inl ''no JSON'' \<rparr>)
        [JStr ''cat''] with_key) = Inr 1
   \<and> returned (ai_mistral_image_gen sample_py (sample_sdk []) [JStr ''cat''] with_key) = Inr 1"
proof -
  have e: "returned (ai_mistral_embeddings sample_py
        (always \<lparr> status_code = 500, body_text = ''down'', body_json = Inl ''no JSON'' \<rparr>)
        [JStr ''cat''] with_key) = Inr (- 1)"
    by (simp add: ai_mistral_embeddings_def Let_def with_key_def ctx_get_def always_def)
  have m: "returned (mistral_moderations sample_py
        (always \<lparr> status_code = 500, body_text = ''down'', body_json = Inl ''no JSON'' \<rparr>)
        [JStr ''cat''] with_key) = Inr (- 1)"
    by (simp add: mistral_moderations_def Let_def with_key_def ctx_get_def always_def)
  have t: "returned (ai_mistral_text sample_py
        (always \<lparr> status_code = 500, body_text = ''down'', body_json = Inl ''no JSON'' \<rparr>)
        [JStr ''cat''] with_key) = Inr 1"
    by (simp add: ai_mistral_text_def Let_def with_key_def ctx_get_def always_def
        build_messages_def)
  have i: "returned (ai_mistral_image_gen sample_py (sample_sdk []) [JStr ''cat''] with_key)
      = Inr 1"
    by (simp add: ai_mistral_image_gen_def Let_def with_key_def ctx_get_def sample_sdk_def
        os_makedirs_def)
  have "(Map.empty :: ctx) (JStr ''set_context'') = None"
    by simp
  with C7_failure_statuses [of Map.empty sample_py "always not_json" "[]"] e m t i
  show ?thesis
    by simp
qed

subsection \<open>Text generation\<close>

lemma build_messages_custom:
  "c (JStr ''MISTRAL_MESSAGES'') = Some (JList ms) \<Longrightarrow>
   build_messages c system_prompt prompt =
     Inr (ms @ [message ''user'' prompt],
          c(JStr ''MISTRAL_MESSAGES'' \<mapsto> JList (ms @ [message ''user'' prompt])))"
  by (simp add: build_messages_def ctx_set_def)

lemma build_messages_default:
  "c (JStr ''MISTRAL_MESSAGES'') = None \<Longrightarrow>
   build_messages c system_prompt prompt =
     Inr ((if truthy system_prompt then [message ''system'' system_prompt] else [])
            @ [message ''user'' prompt], c)"
  by (simp add: build_messages_def)

text \<open>Once the message list is built, exactly one request is posted, whatever comes back.\<close>

lemma text_calls:
  assumes "args \<noteq> []"
    and "truthy (ctx_get c ''MISTRAL_API_KEY'' JNull)"
    and "build_messages c (ctx_get c ''SYSTEM_PROMPT'' (JStr '''')) (hd args) = Inr (ms, c1)"
  shows "calls (ai_mistral_text py post args c) =
     [text_request py c1 (ctx_get c ''MISTRAL_API_KEY'' JNull)
        (ctx_get c ''MISTRAL_MODEL'' (JStr ''mistral-large-latest''))
        (if length args > 1 then args ! 1 else JNull) ms]"
  using assms
  by (simp add: ai_mistral_text_def Let_def split: post_result.splits sum.splits)

lemma request_messages_text_request:
  "request_messages (text_request py c api_key model effort ms) = Some (JList ms)"
  by (simp add: request_messages_def text_request_def)

lemma text_messages_custom:
  assumes "args \<noteq> []"
    and "truthy (ctx_get c ''MISTRAL_API_KEY'' JNull)"
    and "c (JStr ''MISTRAL_MESSAGES'') = Some (JList ms)"
  shows "map request_messages (calls (ai_mistral_text py post args c)) =
     [Some (JList (ms @ [message ''user'' (hd args)]))]"
proof -
  have "build_messages c (ctx_get c ''SYSTEM_PROMPT'' (JStr [])) (hd args) =
      Inr (ms @ [message ''user'' (hd args)],
           c(JStr ''MISTRAL_MESSAGES'' \<mapsto> JList (ms @ [message ''user'' (hd args)])))"
    by (simp add: build_messages_custom assms(3))
  with assms(1,2) text_calls [of args c "ms @ [message ''user'' (hd args)]"
      "c(JStr ''MISTRAL_MESSAGES'' \<mapsto> JList (ms @ [message ''user'' (hd args)]))" py post]
  show ?thesis
    by (simp add: request_messages_text_request)
qed

text \<open>
  C5. The text command is called with a non-empty argument list and a usable API key, and
  the context holds a list under \<^verbatim>\<open>MISTRAL_MESSAGES\<close>. Then one request is posted, and
  its message list is that list with one user message holding \<^verbatim>\<open>args[0]\<close> appended.
  Setting \<^verbatim>\<open>SYSTEM_PROMPT\<close> to any value, or removing it, leaves that message list the
  same.
\<close>

theorem C5_custom_messages:
  assumes "args \<noteq> []"
    and "truthy (ctx_get c ''MISTRAL_API_KEY'' JNull)"
    and "c (JStr ''MISTRAL_MESSAGES'') = Some (JList ms)"
  shows "map request_messages (calls (ai_mistral_text py post args c))
       = [Some (JList (ms @ [message ''user'' (hd args)]))]
     \<and> map request_messages
         (calls (ai_mistral_text py post args (c(JStr ''SYSTEM_PROMPT'' := system_prompt))))
       = [Some (JList (ms @ [message ''user'' (hd args)]))]"
proof -
  let ?c = "c(JStr ''SYSTEM_PROMPT'' := system_prompt)"
  have "truthy (ctx_get ?c ''MISTRAL_API_KEY'' JNull)"
    using assms(2) by (simp add: ctx_get_def)
  moreover have "?c (JStr ''MISTRAL_MESSAGES'') = Some (JList ms)"
    using assms(3) by simp
  ultimately show ?thesis
    using assms text_messages_custom [of args c ms py post]
      text_messages_custom [of args ?c ms py post]
    by simp
qed

text \<open>
  C5 at a concrete input: a context with one earlier assistant message and a system
  prompt; the request carries the earlier message and the new user message only.
\<close>

theorem C5_custom_messages_witness:
  "map request_messages (calls (ai_mistral_text sample_py (always not_json) [JStr ''Hello'']
       (with_key(JStr ''MISTRAL_MESSAGES'' \<mapsto> JList [message ''assistant'' (JStr ''Hi'')],
                 JStr ''SYSTEM_PROMPT'' \<mapsto> JStr ''Be brief''))))
     = [Some (JList [message ''assistant'' (JStr ''Hi''), message ''user'' (JStr ''Hello'')])]"
proof -
  let ?c = "with_key(JStr ''MISTRAL_MESSAGES'' \<mapsto> JList [message ''assistant'' (JStr ''Hi'')],
                 JStr ''SYSTEM_PROMPT'' \<mapsto> JStr ''Be brief'')"
  have a: "[JStr ''Hello''] \<noteq> []"
    by simp
  have k: "truthy (ctx_get ?c ''MISTRAL_API_KEY'' JNull)"
    by (simp add: with_key_def ctx_get_def)
  have m: "?c (JStr ''MISTRAL_MESSAGES'') = Some (JList [message ''assistant'' (JStr ''Hi'')])"
    by simp
  from a k m
    C5_custom_messages [of "[JStr ''Hello'']" ?c "[message ''assistant'' (JStr ''Hi'')]"
      sample_py "always not_json"]
  show ?thesis
    by simp
qed

text \<open>
  Once the message list is built, the command changes at most the error key and the
  result key, and the result key only when it returns 0.
\<close>

lemma text_frame:
  assumes "args \<noteq> []"
    and "truthy (ctx_get c ''MISTRAL_API_KEY'' JNull)"
    and "build_messages c (ctx_get c ''SYSTEM_PROMPT'' (JStr [])) (hd args) = Inr (ms, c1)"
    and "k \<noteq> JStr (error_key_of py c)"
  shows "ctx_after (ai_mistral_text py post args c) k = c1 k
     \<or> returned (ai_mistral_text py post args c) = Inr 0 \<and> k = set_name_of c"
proof (cases "post (text_request py c1 (ctx_get c ''MISTRAL_API_KEY'' JNull)
    (ctx_get c ''MISTRAL_MODEL'' (JStr ''mistral-large-latest''))
    (if length args > 1 then args ! 1 else JNull) ms)")
  case (Raises_RequestException m)
  with assms show ?thesis
    by (simp add: ai_mistral_text_def Let_def ctx_set_def)
next
  case (Raises_other m)
  with assms show ?thesis
    by (simp add: ai_mistral_text_def Let_def)
next
  case (Returns r)
  with assms show ?thesis
    by (simp add: ai_mistral_text_def Let_def ctx_set_def ctx_setitem_def split: sum.splits)
qed

text \<open>
  C8. The claim: when \<^verbatim>\<open>MISTRAL_MESSAGES\<close> is present, the arguments are not empty and the
  API key is usable, then after the call, whatever the HTTP outcome, the entry
  \<^verbatim>\<open>context["MISTRAL_MESSAGES"]\<close> is the earlier list with one user message appended. When
  the caller chose \<^verbatim>\<open>set_context = "MISTRAL_MESSAGES"\<close> and the call succeeds, the entry
  holds the generated text instead.
\<close>

theorem C8_result_stored_over_messages:
  "ctx_after
     (ai_mistral_text sample_py
        (always (ok_response
           (JObj [(''choices'', JList [JObj [(''message'', JObj [(''content'', JStr ''Hi'')])]])])))
        [JStr ''Hello'']
        (with_key(JStr ''set_context'' \<mapsto> JStr ''MISTRAL_MESSAGES'',
                  JStr ''MISTRAL_MESSAGES'' \<mapsto> JList [])))
     (JStr ''MISTRAL_MESSAGES'')
   = Some (JStr ''Hi'')"
  by (simp add: ai_mistral_text_def with_key_def always_def ok_response_def set_name_of_def
      error_key_of_def ctx_get_def ctx_set_def Let_def build_messages_def response_json_def
      first_choice_content_def py_get_def py_index0_def ctx_setitem_def)

text \<open>
  C8, as amended. The text command is called with a non-empty argument list and a usable
  API key, and the context holds a list under \<^verbatim>\<open>MISTRAL_MESSAGES\<close>. Unless the result key
  \<^verbatim>\<open>set_context\<close> is \<^verbatim>\<open>"MISTRAL_MESSAGES"\<close> itself and the command returns 0, after the
  call the entry \<^verbatim>\<open>context["MISTRAL_MESSAGES"]\<close> is the earlier list with the user message
  \<^verbatim>\<open>{"role": "user", "content": args[0]}\<close> appended: whether the request raised, the
  remote answered with an error status, the response could not be decoded, or the call
  succeeded.
\<close>

theorem C8_messages_mutated:
  assumes "args \<noteq> []"
    and "truthy (ctx_get c ''MISTRAL_API_KEY'' JNull)"
    and "c (JStr ''MISTRAL_MESSAGES'') = Some (JList ms)"
    and "set_name_of c \<noteq> JStr ''MISTRAL_MESSAGES''
         \<or> returned (ai_mistral_text py post args c) \<noteq> Inr 0"
  shows "ctx_after (ai_mistral_text py post args c) (JStr ''MISTRAL_MESSAGES'')
     = Some (JList (ms @ [message ''user'' (hd args)]))"
proof -
  have "build_messages c (ctx_get c ''SYSTEM_PROMPT'' (JStr [])) (hd args) =
      Inr (ms @ [message ''user'' (hd args)],
           c(JStr ''MISTRAL_MESSAGES'' \<mapsto> JList (ms @ [message ''user'' (hd args)])))"
    by (simp add: build_messages_custom assms(3))
  moreover have "JStr ''MISTRAL_MESSAGES'' \<noteq> JStr (error_key_of py c)"
    using error_key_not_messages [of py c] by simp
  ultimately have
    "ctx_after (ai_mistral_text py post args c) (JStr ''MISTRAL_MESSAGES'')
       = (c(JStr ''MISTRAL_MESSAGES'' \<mapsto> JList (ms @ [message ''user'' (hd args)])))
           (JStr ''MISTRAL_MESSAGES'')
     \<or> returned (ai_mistral_text py post args c) = Inr 0
        \<and> JStr ''MISTRAL_MESSAGES'' = set_name_of c"
    using assms(1,2) by (rule text_frame [rotated 2])
  with assms(4) show ?thesis
    by auto
qed

text \<open>
  C8 at concrete inputs: the remote answers 500, the response is not JSON (the exception
  leaves the command), and the call succeeds with the default result key.
\<close>

theorem C8_messages_mutated_witness:
  "ctx_after (ai_mistral_text sample_py
       (always \<lparr> status_code = 500, body_text = ''down'', body_json = Inl ''no JSON'' \<rparr>)
       [JStr ''Hello''] (with_key(JStr ''MISTRAL_MESSAGES'' \<mapsto> JList [])))
     (JStr ''MISTRAL_MESSAGES'') = Some (JList [message ''user'' (JStr ''Hello'')])
   \<and> ctx_after (ai_mistral_text sample_py (always not_json)
       [JStr ''Hello''] (with_key(JStr ''MISTRAL_MESSAGES'' \<mapsto> JList [])))
     (JStr ''MISTRAL_MESSAGES'') = Some (JList [message ''user'' (JStr ''Hello'')])
   \<and> ctx_after (ai_mistral_text sample_py
       (always (ok_response
          (JObj [(''choices'', JList [JObj [(''message'', JObj [(''content'', JStr ''Hi'')])]])])))
       [JStr ''Hello''] (with_key(JStr ''MISTRAL_MESSAGES'' \<mapsto> JList [])))
     (JStr ''MISTRAL_MESSAGES'') = Some (JList [message ''user'' (JStr ''Hello'')])"
proof -
  let ?c = "with_key(JStr ''MISTRAL_MESSAGES'' \<mapsto> JList [])"
  have a: "[JStr ''Hello''] \<noteq> []"
    by simp
  have k: "truthy (ctx_get ?c ''MISTRAL_API_KEY'' JNull)"
    by (simp add: with_key_def ctx_get_def)
  have m: "?c (JStr ''MISTRAL_MESSAGES'') = Some (JList [])"
    by simp
  have n: "set_name_of ?c \<noteq> JStr ''MISTRAL_MESSAGES''"
    by (simp add: set_name_of_def with_key_def ctx_get_def)
  show ?thesis
    using a k m n
      C8_messages_mutated [of "[JStr ''Hello'']" ?c "[]" sample_py
        "always \<lparr> status_code = 500, body_text = ''down'', body_json = Inl ''no JSON'' \<rparr>"]
      C8_messages_mutated [of "[JStr ''Hello'']" ?c "[]" sample_py "always not_json"]
      C8_messages_mutated [of "[JStr ''Hello'']" ?c "[]" sample_py
        "always (ok_response
          (JObj [(''choices'', JList [JObj [(''message'', JObj [(''content'', JStr ''Hi'')])]])]))"]
    by simp
qed

text \<open>
  C9. The text command does not reject \<^verbatim>\<open>None\<close> as \<^verbatim>\<open>args[0]\<close>: with a usable API key
  and with \<^verbatim>\<open>MISTRAL_MESSAGES\<close> absent or a list, it posts one request whose last message
  is the user message with a null content. The embeddings and the moderation command, given
  \<^verbatim>\<open>None\<close> as \<^verbatim>\<open>args[0]\<close>, return -1 without posting anything, the embeddings command
  storing its usage error.
\<close>

theorem C9_none_prompt:
  "(truthy (ctx_get c ''MISTRAL_API_KEY'' JNull) \<and> messages_usable c \<longrightarrow>
      map last_message (calls (ai_mistral_text py post (JNull # rest) c))
        = [Some (message ''user'' JNull)])
   \<and> returned (ai_mistral_embeddings py post (JNull # rest) c) = Inr (- 1)
   \<and> calls (ai_mistral_embeddings py post (JNull # rest) c) = []
   \<and> ctx_after (ai_mistral_embeddings py post (JNull # rest) c)
       = c(JStr (error_key_of py c) \<mapsto> JStr ''Usage: ai_mistral_embeddings <text>'')
   \<and> returned (mistral_moderations py post (JNull # rest) c) = Inr (- 1)
   \<and> calls (mistral_moderations py post (JNull # rest) c) = []"
proof -
  have "map last_message (calls (ai_mistral_text py post (JNull # rest) c))
        = [Some (message ''user'' JNull)]"
    if k: "truthy (ctx_get c ''MISTRAL_API_KEY'' JNull)" and u: "messages_usable c"
  proof (cases "c (JStr ''MISTRAL_MESSAGES'')")
    case None
    have a: "JNull # rest \<noteq> []"
      by simp
    have "build_messages c (ctx_get c ''SYSTEM_PROMPT'' (JStr [])) (hd (JNull # rest)) =
        Inr ((if truthy (ctx_get c ''SYSTEM_PROMPT'' (JStr []))
              then [message ''system'' (ctx_get c ''SYSTEM_PROMPT'' (JStr []))] else [])
             @ [message ''user'' JNull], c)"
      by (simp add: build_messages_default None)
    with a k text_calls [of "JNull # rest" c
        "(if truthy (ctx_get c ''SYSTEM_PROMPT'' (JStr []))
              then [message ''system'' (ctx_get c ''SYSTEM_PROMPT'' (JStr []))] else [])
             @ [message ''user'' JNull]" c py post]
    show ?thesis
      by (simp add: last_message_def request_messages_text_request)
  next
    case (Some v)
    with u obtain ms where ms: "c (JStr ''MISTRAL_MESSAGES'') = Some (JList ms)"
      by (cases v) (simp_all add: messages_usable_def)
    have a: "JNull # rest \<noteq> []"
      by simp
    have "build_messages c (ctx_get c ''SYSTEM_PROMPT'' (JStr [])) (hd (JNull # rest)) =
        Inr (ms @ [message ''user'' JNull],
             c(JStr ''MISTRAL_MESSAGES'' \<mapsto> JList (ms @ [message ''user'' JNull])))"
      by (simp add: build_messages_custom ms)
    with a k text_calls [of "JNull # rest" c "ms @ [message ''user'' JNull]"
        "c(JStr ''MISTRAL_MESSAGES'' \<mapsto> JList (ms @ [message ''user'' JNull]))" py post]
    show ?thesis
      by (simp add: last_message_def request_messages_text_request)
  qed
  moreover have "ai_mistral_embeddings py post (JNull # rest) c =
      \<lparr> returned = Inr (- 1),
        ctx_after = c(JStr (error_key_of py c) \<mapsto> JStr ''Usage: ai_mistral_embeddings <text>''),
        calls = [] \<rparr>"
    by (simp add: ai_mistral_embeddings_def Let_def ctx_set_def)
  moreover have "returned (mistral_moderations py post (JNull # rest) c) = Inr (- 1)
      \<and> calls (mistral_moderations py post (JNull # rest) c) = []"
    by (simp add: mistral_moderations_def Let_def)
  ultimately show ?thesis
    by simp
qed

text \<open>C9 at a concrete input: \<^verbatim>\<open>args = [None]\<close> and a context that holds only the key.\<close>

theorem C9_none_prompt_witness:
  "map last_message (calls (ai_mistral_text sample_py (always not_json) [JNull] with_key))
     = [Some (message ''user'' JNull)]
   \<and> calls (ai_mistral_embeddings sample_py (always not_json) [JNull] with_key) = []
   \<and> calls (mistral_moderations sample_py (always not_json) [JNull] with_key) = []"
proof -
  have "truthy (ctx_get with_key ''MISTRAL_API_KEY'' JNull) \<and> messages_usable with_key"
    by (simp add: with_key_def ctx_get_def messages_usable_def)
  with C9_none_prompt [of with_key sample_py "always not_json" "[]"] show ?thesis
    by simp
qed

subsection \<open>Image generation\<close>










end
